theory Spec2Isabelle
  imports Main "HOL-Library.Char_ord" "HOL-Library.List_Lexorder" "HOL-Library.Multiset"
begin

section \<open>Data model of \<open>community_organizer.py\<close>\<close>

text \<open>
  The three dataclasses \<open>Member\<close>, \<open>Event\<close> and \<open>RSVP\<close> are records. Every
  dataclass has a field \<open>id\<close>, and record fields are global names, so the fields carry the
  prefix of their class (\<open>m_\<close>, \<open>e_\<close>, \<open>r_\<close>). Python's \<open>int\<close> is \<open>int\<close>,
  \<open>str\<close> is \<open>string\<close>; \<open>organizer_id\<close> is \<open>None\<close> or an id.
\<close>

record Member =
  m_id :: int
  m_name :: string
  m_email :: string
  m_role :: string
  m_joined_at :: string
  m_active :: int

record Event =
  e_id :: int
  e_title :: string
  e_description :: string
  e_location :: string
  e_event_date :: string
  e_capacity :: int
  e_organizer_id :: "int option"
  e_created_at :: string
  e_status :: string

record RSVP =
  r_id :: int
  r_event_id :: int
  r_member_id :: int
  r_response :: string
  r_rsvp_at :: string
  r_notes :: string

text \<open>
  The state is the database file behind \<open>self.db_path\<close>: the three tables, each a list of
  rows in rowid order, and for each table the counter that AUTOINCREMENT keeps in
  \<open>sqlite_sequence\<close> (the largest rowid the table has ever held).
\<close>

record db =
  db_path :: string
  members :: "Member list"
  members_seq :: int
  events :: "Event list"
  events_seq :: int
  rsvps :: "RSVP list"
  rsvps_seq :: int

text \<open>
  The exceptions that leave the methods: \<open>sqlite3.IntegrityError\<close> when an INSERT breaks a
  UNIQUE constraint, the \<open>ValueError\<close> that \<open>rsvp\<close> raises itself, and the
  \<open>OverflowError\<close> of \<open>conn.execute\<close> when an integer parameter does not fit the
  store's signed 64-bit INTEGER. Each carries its message.
\<close>

datatype error = IntegrityError string | ValueError string | OverflowError string

text \<open>The dictionaries that \<open>event_attendees\<close> and \<open>status\<close> build, by key.\<close>

record Attendee =
  a_name :: string
  a_email :: string
  a_response :: string
  a_rsvp_at :: string

record Status =
  active_members :: int
  total_events :: int
  confirmed_rsvps :: int
  status_db_path :: string

text \<open>The value \<open>export_data\<close> returns is nested dictionaries and lists, ready for \<open>json.dumps\<close>.\<close>

datatype pyval =
    PNone
  | PInt int
  | PStr string
  | PList "pyval list"
  | PDict "(string \<times> pyval) list"

section \<open>The store\<close>

text \<open>
  \<open>conn.execute\<close> binds a Python \<open>int\<close> only if it lies between \<open>-2^63\<close> and
  \<open>2^63 - 1\<close>; otherwise it raises before the statement runs.
\<close>

definition fits_int64 :: "int \<Rightarrow> bool" where
  "fits_int64 n \<longleftrightarrow> - 9223372036854775808 \<le> n \<and> n \<le> 9223372036854775807"

definition int_too_large :: error where
  "int_too_large = OverflowError ''Python int too large to convert to SQLite INTEGER''"

text \<open>\<open>_init_db\<close> on a fresh file: three empty tables.\<close>

definition init_db :: "string \<Rightarrow> db" where
  "init_db path = \<lparr>db_path = path, members = [], members_seq = 0,
     events = [], events_seq = 0, rsvps = [], rsvps_seq = 0\<rparr>"

text \<open>
  The rowid an \<open>INTEGER PRIMARY KEY AUTOINCREMENT\<close> column gives to a new row: one more than
  the largest of the table's counter and the rowids in the table.
\<close>

definition next_rowid :: "int \<Rightarrow> int list \<Rightarrow> int" where
  "next_rowid seq ids = fold max ids seq + 1"

text \<open>\<open>SELECT id FROM members WHERE email=?\<close> with \<open>fetchone()\<close>: the first matching row, or None.\<close>

definition find_member_id :: "string \<Rightarrow> db \<Rightarrow> int option" where
  "find_member_id email s = map_option m_id (find (\<lambda>m. m_email m = email) (members s))"

text \<open>
  Every method takes the clock reading \<open>now\<close> (the string \<open>datetime.now().isoformat()\<close>) and
  the state, and returns its result or the exception raised together with the state it
  leaves. An exception inside \<open>with sqlite3.connect(...)\<close> rolls the transaction back.
\<close>

definition add_member ::
  "string \<Rightarrow> string \<Rightarrow> string \<Rightarrow> string \<Rightarrow> db \<Rightarrow> (error + Member) \<times> db" where
  "add_member name email role now s =
     (if email \<in> set (map m_email (members s))
      then (Inl (IntegrityError ''UNIQUE constraint failed: members.email''), s)
      else
        let i = next_rowid (members_seq s) (map m_id (members s));
            m = \<lparr>m_id = i, m_name = name, m_email = email, m_role = role,
                 m_joined_at = now, m_active = 1\<rparr>
        in (Inr m, s\<lparr>members := members s @ [m], members_seq := i\<rparr>))"

text \<open>
  \<open>if organizer_email:\<close> is false for \<open>None\<close> and for the empty string. The lookup of
  the organizer comes first; the INSERT binds \<open>capacity\<close>.
\<close>

definition create_event ::
  "string \<Rightarrow> string \<Rightarrow> string \<Rightarrow> string \<Rightarrow> int \<Rightarrow> string option \<Rightarrow> string \<Rightarrow> db
     \<Rightarrow> (error + Event) \<times> db" where
  "create_event title event_date location description capacity organizer_email now s =
     (let organizer_id =
            (case organizer_email of
               None \<Rightarrow> None
             | Some e \<Rightarrow> if e = [] then None else find_member_id e s)
      in if \<not> fits_int64 capacity then (Inl int_too_large, s)
         else
           let i = next_rowid (events_seq s) (map e_id (events s));
               ev = \<lparr>e_id = i, e_title = title, e_description = description,
                     e_location = location, e_event_date = event_date, e_capacity = capacity,
                     e_organizer_id = organizer_id, e_created_at = now,
                     e_status = ''upcoming''\<rparr>
           in (Inr ev, s\<lparr>events := events s @ [ev], events_seq := i\<rparr>))"

text \<open>
  The member is looked up first, so an unknown email raises the \<open>ValueError\<close> whatever
  the event id. The INSERT then binds \<open>event_id\<close>. \<open>INSERT OR REPLACE\<close> deletes the rows
  that share the new row's \<open>(event_id, member_id)\<close> and then inserts the new row under a
  fresh rowid.
\<close>

definition rsvp ::
  "int \<Rightarrow> string \<Rightarrow> string \<Rightarrow> string \<Rightarrow> string \<Rightarrow> db \<Rightarrow> (error + RSVP) \<times> db" where
  "rsvp event_id member_email response notes now s =
     (case find_member_id member_email s of
        None \<Rightarrow>
          (Inl (ValueError (''Member '' @ [CHR 0x27] @ member_email @ [CHR 0x27] @ '' not found'')), s)
      | Some m \<Rightarrow>
          if \<not> fits_int64 event_id then (Inl int_too_large, s)
          else
            let i = next_rowid (rsvps_seq s) (map r_id (rsvps s));
                r = \<lparr>r_id = i, r_event_id = event_id, r_member_id = m,
                     r_response = response, r_rsvp_at = now, r_notes = notes\<rparr>
            in (Inr r,
                s\<lparr>rsvps := filter (\<lambda>x. \<not> (r_event_id x = event_id \<and> r_member_id x = m)) (rsvps s) @ [r],
                  rsvps_seq := i\<rparr>))"

text \<open>
  \<open>ORDER BY event_date\<close> compares the TEXT values byte by byte, which is the lexicographic
  order of \<open>string\<close>. \<open>if status:\<close> is false for \<open>None\<close> and for the empty string.
\<close>

definition list_events :: "string option \<Rightarrow> db \<Rightarrow> Event list" where
  "list_events status s =
     (case status of
        None \<Rightarrow> sort_key e_event_date (events s)
      | Some st \<Rightarrow>
          if st = [] then sort_key e_event_date (events s)
          else sort_key e_event_date (filter (\<lambda>e. e_status e = st) (events s)))"

definition list_members :: "db \<Rightarrow> Member list" where
  "list_members s = filter (\<lambda>m. m_active m = 1) (members s)"

text \<open>
  The SELECT binds \<open>event_id\<close>. The inner join: each RSVP row of the event with each member
  row whose id is the row's \<open>member_id\<close>, then ordered by \<open>rsvp_at\<close>.
\<close>

definition event_attendees :: "int \<Rightarrow> db \<Rightarrow> error + Attendee list" where
  "event_attendees event_id s =
     (if \<not> fits_int64 event_id then Inl int_too_large
      else Inr
        (sort_key a_rsvp_at
          (concat (map (\<lambda>r. map (\<lambda>m. \<lparr>a_name = m_name m, a_email = m_email m,
                                       a_response = r_response r, a_rsvp_at = r_rsvp_at r\<rparr>)
                                 (filter (\<lambda>m. m_id m = r_member_id r) (members s)))
                       (filter (\<lambda>r. r_event_id r = event_id) (rsvps s))))))"

definition status :: "db \<Rightarrow> Status" where
  "status s =
     \<lparr>active_members = int (length (filter (\<lambda>m. m_active m = 1) (members s))),
      total_events = int (length (events s)),
      confirmed_rsvps = int (length (filter (\<lambda>r. r_response r = ''attending'') (rsvps s))),
      status_db_path = db_path s\<rparr>"

text \<open>\<open>asdict\<close> on each dataclass: one key per field, in the order of the fields.\<close>

definition asdict_member :: "Member \<Rightarrow> pyval" where
  "asdict_member m = PDict
     [(''id'', PInt (m_id m)), (''name'', PStr (m_name m)), (''email'', PStr (m_email m)),
      (''role'', PStr (m_role m)), (''joined_at'', PStr (m_joined_at m)),
      (''active'', PInt (m_active m))]"

definition asdict_event :: "Event \<Rightarrow> pyval" where
  "asdict_event e = PDict
     [(''id'', PInt (e_id e)), (''title'', PStr (e_title e)),
      (''description'', PStr (e_description e)), (''location'', PStr (e_location e)),
      (''event_date'', PStr (e_event_date e)), (''capacity'', PInt (e_capacity e)),
      (''organizer_id'', (case e_organizer_id e of None \<Rightarrow> PNone | Some i \<Rightarrow> PInt i)),
      (''created_at'', PStr (e_created_at e)), (''status'', PStr (e_status e))]"

definition asdict_rsvp :: "RSVP \<Rightarrow> pyval" where
  "asdict_rsvp r = PDict
     [(''id'', PInt (r_id r)), (''event_id'', PInt (r_event_id r)),
      (''member_id'', PInt (r_member_id r)), (''response'', PStr (r_response r)),
      (''rsvp_at'', PStr (r_rsvp_at r)), (''notes'', PStr (r_notes r))]"

definition export_data :: "string \<Rightarrow> db \<Rightarrow> pyval" where
  "export_data now s = PDict
     [(''members'', PList (map asdict_member (members s))),
      (''events'', PList (map asdict_event (events s))),
      (''rsvps'', PList (map asdict_rsvp (rsvps s))),
      (''exported_at'', PStr now)]"

section \<open>Reachable states\<close>

text \<open>
  The states the program can be in: a fresh database, and whatever a call of one of the
  three writing methods leaves (a call that raises leaves the state as it was).
\<close>

inductive reachable :: "db \<Rightarrow> bool" where
  reach_init: "reachable (init_db path)"
| reach_add_member: "reachable s \<Longrightarrow> reachable (snd (add_member name email role now s))"
| reach_create_event:
    "reachable s \<Longrightarrow>
     reachable (snd (create_event title event_date location description capacity organizer_email now s))"
| reach_rsvp: "reachable s \<Longrightarrow> reachable (snd (rsvp event_id member_email response notes now s))"

section \<open>Consistency of a database\<close>

text \<open>
  What the schema and the methods together maintain: member ids and emails are unique
  (PRIMARY KEY, UNIQUE), every member is active, an \<open>(event_id, member_id)\<close> pair has at most
  one RSVP row (UNIQUE), and every RSVP row names a member of the table.
\<close>

definition rsvp_key :: "RSVP \<Rightarrow> int \<times> int" where
  "rsvp_key r = (r_event_id r, r_member_id r)"

definition consistent :: "db \<Rightarrow> bool" where
  "consistent s \<longleftrightarrow>
     distinct (map m_id (members s)) \<and>
     distinct (map m_email (members s)) \<and>
     list_all (\<lambda>m. m_active m = 1) (members s) \<and>
     distinct (map rsvp_key (rsvps s)) \<and>
     list_all (\<lambda>r. r_member_id r \<in> set (map m_id (members s))) (rsvps s)"

section \<open>Reading a dictionary\<close>

text \<open>\<open>list(d.keys())\<close> and \<open>d.get(k)\<close> on a value that is a dictionary.\<close>

fun dict_keys :: "pyval \<Rightarrow> string list" where
  "dict_keys (PDict kvs) = map fst kvs"
| "dict_keys _ = []"

fun dict_get :: "pyval \<Rightarrow> string \<Rightarrow> pyval option" where
  "dict_get (PDict kvs) k = map_of kvs k"
| "dict_get _ k = None"

section \<open>Example runs\<close>

text \<open>
  The scenario of the specification: member A registers, the event Meetup is created with
  A as organizer, and A answers that they attend.
\<close>

definition db_one_member :: db where
  "db_one_member =
     snd (add_member ''A'' ''a@x.com'' ''member'' ''2025-05-01T10:00:00'' (init_db ''organizer.db''))"

definition db_meetup :: db where
  "db_meetup =
     snd (create_event ''Meetup'' ''2025-06-01'' ''TBD'' [] 50 (Some ''a@x.com'')
            ''2025-05-02T10:00:00'' db_one_member)"

definition db_scenario :: db where
  "db_scenario = snd (rsvp 1 ''a@x.com'' ''attending'' [] ''2025-05-03T10:00:00'' db_meetup)"

text \<open>
  A larger run: three members, a second event dated before the first, and for the Meetup
  the answers maybe (B), declined (C) and, recorded last, attending (A again).
\<close>

definition db_three_members :: db where
  "db_three_members =
     snd (add_member ''C'' ''c@x.com'' ''member'' ''2025-05-05T10:00:00''
       (snd (add_member ''B'' ''b@x.com'' ''admin'' ''2025-05-04T10:00:00'' db_scenario)))"

definition db_two_events :: db where
  "db_two_events =
     snd (create_event ''Kickoff'' ''2025-03-15'' ''Hall'' ''first'' 20 None
            ''2025-05-06T10:00:00'' db_three_members)"

definition db_busy :: db where
  "db_busy =
     snd (rsvp 1 ''a@x.com'' ''attending'' ''back in'' ''2025-05-09T10:00:00''
       (snd (rsvp 1 ''c@x.com'' ''declined'' [] ''2025-05-08T10:00:00''
         (snd (rsvp 1 ''b@x.com'' ''maybe'' [] ''2025-05-07T10:00:00'' db_two_events)))))"

text \<open>A member registered under the empty email.\<close>

definition db_empty_email :: db where
  "db_empty_email =
     snd (add_member ''Nobody'' [] ''member'' ''2025-05-01T10:00:00'' (init_db ''organizer.db''))"

section \<open>Properties of the store\<close>

subsection \<open>Fresh rowids\<close>

lemma fold_max_start: "b \<le> fold max ids (b::int)"
proof (induction ids arbitrary: b)
  case Nil
  show ?case by simp
next
  case (Cons a ids)
  have "b \<le> max a b" by simp
  also have "\<dots> \<le> fold max ids (max a b)" by (rule Cons.IH)
  finally show ?case by simp
qed

lemma fold_max_ge: "x \<in> set ids \<Longrightarrow> x \<le> fold max ids (seq::int)"
proof (induction ids arbitrary: seq)
  case Nil
  then show ?case by simp
next
  case (Cons a ids)
  show ?case
  proof (cases "x = a")
    case True
    have "a \<le> max a seq" by simp
    also have "\<dots> \<le> fold max ids (max a seq)" by (rule fold_max_start)
    finally show ?thesis using True by simp
  next
    case False
    with Cons.prems have "x \<in> set ids" by simp
    then show ?thesis using Cons.IH by simp
  qed
qed

lemma next_rowid_fresh: "next_rowid seq ids \<notin> set ids"
proof
  assume "next_rowid seq ids \<in> set ids"
  then have "next_rowid seq ids \<le> fold max ids seq" by (rule fold_max_ge)
  then show False by (simp add: next_rowid_def)
qed

subsection \<open>What each writing method does to each table\<close>

lemma add_member_fail:
  "email \<in> m_email ` set (members s) \<Longrightarrow>
   add_member name email role now s =
     (Inl (IntegrityError ''UNIQUE constraint failed: members.email''), s)"
  by (simp add: add_member_def)

lemma add_member_ok:
  "email \<notin> m_email ` set (members s) \<Longrightarrow>
   \<exists>i. i \<notin> m_id ` set (members s) \<and>
     add_member name email role now s =
       (Inr \<lparr>m_id = i, m_name = name, m_email = email, m_role = role,
             m_joined_at = now, m_active = 1\<rparr>,
        s\<lparr>members := members s @ [\<lparr>m_id = i, m_name = name, m_email = email, m_role = role,
             m_joined_at = now, m_active = 1\<rparr>], members_seq := i\<rparr>)"
  using next_rowid_fresh[of "members_seq s" "map m_id (members s)"]
  by (simp add: add_member_def Let_def)

lemma add_member_events [simp]: "events (snd (add_member name email role now s)) = events s"
  by (simp add: add_member_def Let_def)

lemma add_member_rsvps [simp]: "rsvps (snd (add_member name email role now s)) = rsvps s"
  by (simp add: add_member_def Let_def)

lemma create_event_members [simp]:
  "members (snd (create_event t d l ds c oe now s)) = members s"
  by (simp add: create_event_def Let_def)

lemma create_event_rsvps [simp]:
  "rsvps (snd (create_event t d l ds c oe now s)) = rsvps s"
  by (simp add: create_event_def Let_def)

lemma rsvp_members [simp]: "members (snd (rsvp e em r n now s)) = members s"
  by (simp add: rsvp_def Let_def split: option.splits)

lemma rsvp_events [simp]: "events (snd (rsvp e em r n now s)) = events s"
  by (simp add: rsvp_def Let_def split: option.splits)

lemma find_member_id_None:
  "find_member_id email s = None \<longleftrightarrow> email \<notin> m_email ` set (members s)"
  by (auto simp: find_member_id_def find_None_iff)

lemma find_member_id_Some:
  "find_member_id email s = Some i \<Longrightarrow> \<exists>m \<in> set (members s). m_id m = i \<and> m_email m = email"
  by (auto simp: find_member_id_def find_Some_iff)

lemma find_member_id_rsvp [simp]:
  "find_member_id email (snd (rsvp e em r n now s)) = find_member_id email s"
  by (simp add: find_member_id_def)

lemma rsvp_fail:
  "find_member_id email s = None \<Longrightarrow>
   rsvp e email r n now s =
     (Inl (ValueError (''Member '' @ [CHR 0x27] @ email @ [CHR 0x27] @ '' not found'')), s)"
  by (simp add: rsvp_def)

lemma rsvp_overflow:
  "find_member_id email s = Some m \<Longrightarrow> \<not> fits_int64 e \<Longrightarrow>
   rsvp e email r n now s = (Inl int_too_large, s)"
  by (simp add: rsvp_def)

lemma rsvp_ok:
  "find_member_id email s = Some m \<Longrightarrow> fits_int64 e \<Longrightarrow>
   \<exists>i. rsvp e email r n now s =
     (Inr \<lparr>r_id = i, r_event_id = e, r_member_id = m, r_response = r, r_rsvp_at = now,
           r_notes = n\<rparr>,
      s\<lparr>rsvps := filter (\<lambda>x. rsvp_key x \<noteq> (e, m)) (rsvps s) @
           [\<lparr>r_id = i, r_event_id = e, r_member_id = m, r_response = r, r_rsvp_at = now,
             r_notes = n\<rparr>],
        rsvps_seq := i\<rparr>)"
  by (simp add: rsvp_def Let_def rsvp_key_def)

subsection \<open>Reachable databases are consistent\<close>

lemma distinct_replace:
  assumes "distinct (map k xs)" and "k y = v"
  shows "distinct (map k (filter (\<lambda>x. k x \<noteq> v) xs @ [y]))"
  using assms by (auto simp: distinct_map_filter)

lemma consistent_init: "consistent (init_db path)"
  by (simp add: consistent_def init_db_def)

lemma consistent_add_member:
  assumes "consistent s"
  shows "consistent (snd (add_member name email role now s))"
proof (cases "email \<in> m_email ` set (members s)")
  case True
  then show ?thesis using assms by (simp add: add_member_fail)
next
  case False
  from add_member_ok[OF False, of name role now] obtain i where
    i: "i \<notin> m_id ` set (members s)" and
    eq: "add_member name email role now s =
       (Inr \<lparr>m_id = i, m_name = name, m_email = email, m_role = role,
             m_joined_at = now, m_active = 1\<rparr>,
        s\<lparr>members := members s @ [\<lparr>m_id = i, m_name = name, m_email = email, m_role = role,
             m_joined_at = now, m_active = 1\<rparr>], members_seq := i\<rparr>)"
    by blast
  show ?thesis
    using assms i False unfolding eq consistent_def
    by (auto simp: list_all_iff)
qed

lemma consistent_create_event:
  "consistent s \<Longrightarrow> consistent (snd (create_event t d l ds c oe now s))"
  by (simp add: consistent_def)

lemma consistent_rsvp:
  assumes "consistent s"
  shows "consistent (snd (rsvp e email r n now s))"
proof (cases "find_member_id email s")
  case None
  then show ?thesis using assms by (simp add: rsvp_fail)
next
  case (Some m)
  show ?thesis
  proof (cases "fits_int64 e")
    case False
    with Some assms show ?thesis by (simp add: rsvp_overflow)
  next
    case True
    from rsvp_ok[OF Some True, of r n now] obtain i where
    eq: "rsvp e email r n now s =
     (Inr \<lparr>r_id = i, r_event_id = e, r_member_id = m, r_response = r, r_rsvp_at = now,
           r_notes = n\<rparr>,
      s\<lparr>rsvps := filter (\<lambda>x. rsvp_key x \<noteq> (e, m)) (rsvps s) @
           [\<lparr>r_id = i, r_event_id = e, r_member_id = m, r_response = r, r_rsvp_at = now,
             r_notes = n\<rparr>],
        rsvps_seq := i\<rparr>)"
    by blast
  from find_member_id_Some[OF Some] have m: "m \<in> m_id ` set (members s)" by auto
  have d: "distinct (map rsvp_key (filter (\<lambda>x. rsvp_key x \<noteq> (e, m)) (rsvps s) @
           [\<lparr>r_id = i, r_event_id = e, r_member_id = m, r_response = r, r_rsvp_at = now,
             r_notes = n\<rparr>]))"
    using assms by (intro distinct_replace) (simp_all add: consistent_def rsvp_key_def)
    show ?thesis
      using assms m d unfolding eq consistent_def
      by (auto simp: list_all_iff)
  qed
qed

lemma reachable_consistent: "reachable s \<Longrightarrow> consistent s"
  by (induction rule: reachable.induct)
     (simp_all add: consistent_init consistent_add_member consistent_create_event consistent_rsvp)

subsection \<open>The example runs, evaluated\<close>

lemma db_one_member_eq:
  "db_one_member =
     \<lparr>db_path = ''organizer.db'',
      members = [\<lparr>m_id = 1, m_name = ''A'', m_email = ''a@x.com'', m_role = ''member'',
                  m_joined_at = ''2025-05-01T10:00:00'', m_active = 1\<rparr>],
      members_seq = 1, events = [], events_seq = 0, rsvps = [], rsvps_seq = 0\<rparr>"
  by (simp add: db_one_member_def add_member_def init_db_def next_rowid_def fits_int64_def Let_def)

lemma db_meetup_eq:
  "db_meetup =
     \<lparr>db_path = ''organizer.db'',
      members = [\<lparr>m_id = 1, m_name = ''A'', m_email = ''a@x.com'', m_role = ''member'',
                  m_joined_at = ''2025-05-01T10:00:00'', m_active = 1\<rparr>],
      members_seq = 1,
      events = [\<lparr>e_id = 1, e_title = ''Meetup'', e_description = [], e_location = ''TBD'',
                 e_event_date = ''2025-06-01'', e_capacity = 50, e_organizer_id = Some 1,
                 e_created_at = ''2025-05-02T10:00:00'', e_status = ''upcoming''\<rparr>],
      events_seq = 1, rsvps = [], rsvps_seq = 0\<rparr>"
  by (simp add: db_meetup_def db_one_member_eq create_event_def find_member_id_def next_rowid_def fits_int64_def Let_def)

lemma db_scenario_eq:
  "db_scenario =
     \<lparr>db_path = ''organizer.db'',
      members = [\<lparr>m_id = 1, m_name = ''A'', m_email = ''a@x.com'', m_role = ''member'',
                  m_joined_at = ''2025-05-01T10:00:00'', m_active = 1\<rparr>],
      members_seq = 1,
      events = [\<lparr>e_id = 1, e_title = ''Meetup'', e_description = [], e_location = ''TBD'',
                 e_event_date = ''2025-06-01'', e_capacity = 50, e_organizer_id = Some 1,
                 e_created_at = ''2025-05-02T10:00:00'', e_status = ''upcoming''\<rparr>],
      events_seq = 1,
      rsvps = [\<lparr>r_id = 1, r_event_id = 1, r_member_id = 1, r_response = ''attending'',
                r_rsvp_at = ''2025-05-03T10:00:00'', r_notes = []\<rparr>],
      rsvps_seq = 1\<rparr>"
  by (simp add: db_scenario_def db_meetup_eq rsvp_def find_member_id_def next_rowid_def fits_int64_def Let_def)

lemma db_three_members_eq:
  "db_three_members =
     \<lparr>db_path = ''organizer.db'',
      members = [\<lparr>m_id = 1, m_name = ''A'', m_email = ''a@x.com'', m_role = ''member'',
                  m_joined_at = ''2025-05-01T10:00:00'', m_active = 1\<rparr>,
                 \<lparr>m_id = 2, m_name = ''B'', m_email = ''b@x.com'', m_role = ''admin'',
                  m_joined_at = ''2025-05-04T10:00:00'', m_active = 1\<rparr>,
                 \<lparr>m_id = 3, m_name = ''C'', m_email = ''c@x.com'', m_role = ''member'',
                  m_joined_at = ''2025-05-05T10:00:00'', m_active = 1\<rparr>],
      members_seq = 3,
      events = [\<lparr>e_id = 1, e_title = ''Meetup'', e_description = [], e_location = ''TBD'',
                 e_event_date = ''2025-06-01'', e_capacity = 50, e_organizer_id = Some 1,
                 e_created_at = ''2025-05-02T10:00:00'', e_status = ''upcoming''\<rparr>],
      events_seq = 1,
      rsvps = [\<lparr>r_id = 1, r_event_id = 1, r_member_id = 1, r_response = ''attending'',
                r_rsvp_at = ''2025-05-03T10:00:00'', r_notes = []\<rparr>],
      rsvps_seq = 1\<rparr>"
  by (simp add: db_three_members_def db_scenario_eq add_member_def next_rowid_def fits_int64_def Let_def)

lemma db_two_events_eq:
  "db_two_events =
     \<lparr>db_path = ''organizer.db'',
      members = [\<lparr>m_id = 1, m_name = ''A'', m_email = ''a@x.com'', m_role = ''member'',
                  m_joined_at = ''2025-05-01T10:00:00'', m_active = 1\<rparr>,
                 \<lparr>m_id = 2, m_name = ''B'', m_email = ''b@x.com'', m_role = ''admin'',
                  m_joined_at = ''2025-05-04T10:00:00'', m_active = 1\<rparr>,
                 \<lparr>m_id = 3, m_name = ''C'', m_email = ''c@x.com'', m_role = ''member'',
                  m_joined_at = ''2025-05-05T10:00:00'', m_active = 1\<rparr>],
      members_seq = 3,
      events = [\<lparr>e_id = 1, e_title = ''Meetup'', e_description = [], e_location = ''TBD'',
                 e_event_date = ''2025-06-01'', e_capacity = 50, e_organizer_id = Some 1,
                 e_created_at = ''2025-05-02T10:00:00'', e_status = ''upcoming''\<rparr>,
                \<lparr>e_id = 2, e_title = ''Kickoff'', e_description = ''first'',
                 e_location = ''Hall'', e_event_date = ''2025-03-15'', e_capacity = 20,
                 e_organizer_id = None, e_created_at = ''2025-05-06T10:00:00'',
                 e_status = ''upcoming''\<rparr>],
      events_seq = 2,
      rsvps = [\<lparr>r_id = 1, r_event_id = 1, r_member_id = 1, r_response = ''attending'',
                r_rsvp_at = ''2025-05-03T10:00:00'', r_notes = []\<rparr>],
      rsvps_seq = 1\<rparr>"
  by (simp add: db_two_events_def db_three_members_eq create_event_def next_rowid_def fits_int64_def Let_def)

lemma db_busy_eq:
  "db_busy =
     \<lparr>db_path = ''organizer.db'',
      members = [\<lparr>m_id = 1, m_name = ''A'', m_email = ''a@x.com'', m_role = ''member'',
                  m_joined_at = ''2025-05-01T10:00:00'', m_active = 1\<rparr>,
                 \<lparr>m_id = 2, m_name = ''B'', m_email = ''b@x.com'', m_role = ''admin'',
                  m_joined_at = ''2025-05-04T10:00:00'', m_active = 1\<rparr>,
                 \<lparr>m_id = 3, m_name = ''C'', m_email = ''c@x.com'', m_role = ''member'',
                  m_joined_at = ''2025-05-05T10:00:00'', m_active = 1\<rparr>],
      members_seq = 3,
      events = [\<lparr>e_id = 1, e_title = ''Meetup'', e_description = [], e_location = ''TBD'',
                 e_event_date = ''2025-06-01'', e_capacity = 50, e_organizer_id = Some 1,
                 e_created_at = ''2025-05-02T10:00:00'', e_status = ''upcoming''\<rparr>,
                \<lparr>e_id = 2, e_title = ''Kickoff'', e_description = ''first'',
                 e_location = ''Hall'', e_event_date = ''2025-03-15'', e_capacity = 20,
                 e_organizer_id = None, e_created_at = ''2025-05-06T10:00:00'',
                 e_status = ''upcoming''\<rparr>],
      events_seq = 2,
      rsvps = [\<lparr>r_id = 2, r_event_id = 1, r_member_id = 2, r_response = ''maybe'',
                r_rsvp_at = ''2025-05-07T10:00:00'', r_notes = []\<rparr>,
               \<lparr>r_id = 3, r_event_id = 1, r_member_id = 3, r_response = ''declined'',
                r_rsvp_at = ''2025-05-08T10:00:00'', r_notes = []\<rparr>,
               \<lparr>r_id = 4, r_event_id = 1, r_member_id = 1, r_response = ''attending'',
                r_rsvp_at = ''2025-05-09T10:00:00'', r_notes = ''back in''\<rparr>],
      rsvps_seq = 4\<rparr>"
  by (simp add: db_busy_def db_two_events_eq rsvp_def find_member_id_def next_rowid_def fits_int64_def Let_def)

lemma db_empty_email_eq:
  "db_empty_email =
     \<lparr>db_path = ''organizer.db'',
      members = [\<lparr>m_id = 1, m_name = ''Nobody'', m_email = [], m_role = ''member'',
                  m_joined_at = ''2025-05-01T10:00:00'', m_active = 1\<rparr>],
      members_seq = 1, events = [], events_seq = 0, rsvps = [], rsvps_seq = 0\<rparr>"
  by (simp add: db_empty_email_def add_member_def init_db_def next_rowid_def fits_int64_def Let_def)

lemma reachable_db_one_member: "reachable db_one_member"
  unfolding db_one_member_def by (intro reachable.intros)

lemma reachable_db_meetup: "reachable db_meetup"
  unfolding db_meetup_def by (intro reachable.intros reachable_db_one_member)

lemma reachable_db_scenario: "reachable db_scenario"
  unfolding db_scenario_def by (intro reachable.intros reachable_db_meetup)

lemma reachable_db_busy: "reachable db_busy"
  unfolding db_busy_def db_two_events_def db_three_members_def
  by (intro reachable.intros reachable_db_scenario)

lemma reachable_db_empty_email: "reachable db_empty_email"
  unfolding db_empty_email_def by (intro reachable.intros)

subsection \<open>Rows under one key\<close>

lemma distinct_key_filter_le1:
  "distinct (map k xs) \<Longrightarrow> length (filter (\<lambda>x. k x = v) xs) \<le> 1"
proof (induction xs)
  case Nil
  show ?case by simp
next
  case (Cons x xs)
  show ?case
  proof (cases "k x = v")
    case True
    with Cons.prems have "v \<notin> k ` set xs" by auto
    then have "filter (\<lambda>x. k x = v) xs = []" by (auto simp: filter_empty_conv)
    with True show ?thesis by simp
  next
    case False
    with Cons show ?thesis by simp
  qed
qed

lemma filter_key_replace:
  "k y = v \<Longrightarrow> filter (\<lambda>x. k x = v) (filter (\<lambda>x. k x \<noteq> v) xs @ [y]) = [y]"
  by (simp add: filter_empty_conv)

subsection \<open>Sorting a mapped list\<close>

lemma insort_key_map:
  "insort_key f (g x) (map g ys) = map g (insort_key (\<lambda>y. f (g y)) x ys)"
  by (induction ys) simp_all

lemma sort_key_map: "sort_key f (map g xs) = map g (sort_key (\<lambda>y. f (g y)) xs)"
  by (induction xs) (simp_all add: insort_key_map)

lemma concat_map_single:
  "(\<And>x. x \<in> set xs \<Longrightarrow> F x = [h x]) \<Longrightarrow> concat (map F xs) = map h xs"
  by (induction xs) simp_all

lemma filter_unique_key:
  assumes "distinct (map k xs)" and "v \<in> k ` set xs"
  shows "\<exists>x \<in> set xs. k x = v \<and> filter (\<lambda>x. k x = v) xs = [x]"
proof -
  from assms(2) have "filter (\<lambda>x. k x = v) xs \<noteq> []" by (auto simp: filter_empty_conv)
  moreover have "length (filter (\<lambda>x. k x = v) xs) \<le> 1"
    using assms(1) by (rule distinct_key_filter_le1)
  ultimately obtain x where x: "filter (\<lambda>x. k x = v) xs = [x]"
    by (cases "filter (\<lambda>x. k x = v) xs") auto
  then have "x \<in> set (filter (\<lambda>x. k x = v) xs)" by simp
  then have "x \<in> set xs" "k x = v" by simp_all
  with x show ?thesis by blast
qed

subsection \<open>Looking a member up by email\<close>

lemma find_member_id_unique:
  assumes "distinct (map m_email (members s))" and "m \<in> set (members s)"
  shows "find_member_id (m_email m) s = Some (m_id m)"
proof -
  have "find_member_id (m_email m) s \<noteq> None"
    using assms(2) by (simp add: find_member_id_None)
  then obtain i where i: "find_member_id (m_email m) s = Some i" by blast
  from find_member_id_Some[OF i] obtain m' where
    m': "m' \<in> set (members s)" "m_id m' = i" "m_email m' = m_email m" by blast
  from assms(1) have "inj_on m_email (set (members s))" by (simp add: distinct_map)
  with m' assms(2) have "m' = m" by (auto dest: inj_onD)
  with i m' show ?thesis by simp
qed

subsection \<open>\<open>asdict\<close> loses nothing\<close>

lemma asdict_member_inj: "asdict_member m = asdict_member m' \<Longrightarrow> m = m'"
  by (cases m, cases m') (simp add: asdict_member_def)

lemma asdict_event_inj: "asdict_event e = asdict_event e' \<Longrightarrow> e = e'"
  by (cases e, cases e') (auto simp: asdict_event_def split: option.splits)

lemma asdict_rsvp_inj: "asdict_rsvp r = asdict_rsvp r' \<Longrightarrow> r = r'"
  by (cases r, cases r') (simp add: asdict_rsvp_def)

section \<open>The claims\<close>

text \<open>
  C1, as amended. If the email M belongs to a member and the event id E fits the store's
  signed 64-bit INTEGER, then after two calls of \<open>rsvp\<close> for E and M the table has exactly
  one row for E and that member, and the row has the response, the notes and the timestamp
  of the second call (which returns that row). For an event id outside that range \<open>rsvp\<close>
  raises the OverflowError and leaves the state as it was. In every reachable state an
  (event, member) pair has at most one RSVP row.
\<close>

theorem rsvp_twice_one_row:
  "(M \<in> m_email ` set (members s) \<and> fits_int64 E \<longrightarrow>
      (\<exists>m \<in> set (members s). \<exists>i. m_email m = M \<and>
         fst (rsvp E M r2 n2 t2 (snd (rsvp E M r1 n1 t1 s))) =
           Inr \<lparr>r_id = i, r_event_id = E, r_member_id = m_id m, r_response = r2,
                 r_rsvp_at = t2, r_notes = n2\<rparr> \<and>
         filter (\<lambda>x. r_event_id x = E \<and> r_member_id x = m_id m)
           (rsvps (snd (rsvp E M r2 n2 t2 (snd (rsvp E M r1 n1 t1 s))))) =
           [\<lparr>r_id = i, r_event_id = E, r_member_id = m_id m, r_response = r2,
             r_rsvp_at = t2, r_notes = n2\<rparr>])) \<and>
   (M \<in> m_email ` set (members s) \<and> \<not> fits_int64 E \<longrightarrow>
      rsvp E M r1 n1 t1 s = (Inl int_too_large, s)) \<and>
   (reachable s \<longrightarrow>
      length (filter (\<lambda>x. r_event_id x = e \<and> r_member_id x = k) (rsvps s)) \<le> 1)"
proof (intro conjI impI)
  assume a: "M \<in> m_email ` set (members s) \<and> \<not> fits_int64 E"
  then have "find_member_id M s \<noteq> None" by (simp add: find_member_id_None)
  then obtain k where "find_member_id M s = Some k" by blast
  with a show "rsvp E M r1 n1 t1 s = (Inl int_too_large, s)" by (simp add: rsvp_overflow)
next
  assume a: "M \<in> m_email ` set (members s) \<and> fits_int64 E"
  then have fits: "fits_int64 E" by simp
  from a have "find_member_id M s \<noteq> None" by (simp add: find_member_id_None)
  then obtain k where k: "find_member_id M s = Some k" by blast
  from find_member_id_Some[OF k] obtain m where
    m: "m \<in> set (members s)" "m_id m = k" "m_email m = M" by blast
  let ?s1 = "snd (rsvp E M r1 n1 t1 s)"
  have k1: "find_member_id M ?s1 = Some k" using k by simp
  from rsvp_ok[OF k1 fits, of r2 n2 t2] obtain i where
    r: "fst (rsvp E M r2 n2 t2 ?s1) =
          Inr \<lparr>r_id = i, r_event_id = E, r_member_id = k, r_response = r2, r_rsvp_at = t2,
                r_notes = n2\<rparr>" and
    s2: "rsvps (snd (rsvp E M r2 n2 t2 ?s1)) = filter (\<lambda>x. rsvp_key x \<noteq> (E, k)) (rsvps ?s1) @
           [\<lparr>r_id = i, r_event_id = E, r_member_id = k, r_response = r2, r_rsvp_at = t2,
             r_notes = n2\<rparr>]"
    by auto
  have key: "(\<lambda>x. r_event_id x = E \<and> r_member_id x = k) = (\<lambda>x. rsvp_key x = (E, k))"
    by (simp add: rsvp_key_def)
  have "filter (\<lambda>x. r_event_id x = E \<and> r_member_id x = k) (rsvps (snd (rsvp E M r2 n2 t2 ?s1))) =
          [\<lparr>r_id = i, r_event_id = E, r_member_id = k, r_response = r2, r_rsvp_at = t2,
            r_notes = n2\<rparr>]"
    unfolding key s2 by (rule filter_key_replace) (simp add: rsvp_key_def)
  with r m show "\<exists>m \<in> set (members s). \<exists>i. m_email m = M \<and>
         fst (rsvp E M r2 n2 t2 ?s1) =
           Inr \<lparr>r_id = i, r_event_id = E, r_member_id = m_id m, r_response = r2,
                 r_rsvp_at = t2, r_notes = n2\<rparr> \<and>
         filter (\<lambda>x. r_event_id x = E \<and> r_member_id x = m_id m)
           (rsvps (snd (rsvp E M r2 n2 t2 ?s1))) =
           [\<lparr>r_id = i, r_event_id = E, r_member_id = m_id m, r_response = r2,
             r_rsvp_at = t2, r_notes = n2\<rparr>]"
    by blast
next
  assume "reachable s"
  then have "distinct (map rsvp_key (rsvps s))"
    using reachable_consistent by (simp add: consistent_def)
  then have "length (filter (\<lambda>x. rsvp_key x = (e, k)) (rsvps s)) \<le> 1"
    by (rule distinct_key_filter_le1)
  then show "length (filter (\<lambda>x. r_event_id x = e \<and> r_member_id x = k) (rsvps s)) \<le> 1"
    by (simp add: rsvp_key_def)
qed

theorem rsvp_twice_one_row_witness:
  "''b@x.com'' \<in> m_email ` set (members db_busy) \<and> fits_int64 2 \<and>
   fst (rsvp 2 ''b@x.com'' ''declined'' ''ill'' ''2025-05-11T10:00:00''
          (snd (rsvp 2 ''b@x.com'' ''attending'' [] ''2025-05-10T10:00:00'' db_busy))) =
     Inr \<lparr>r_id = 6, r_event_id = 2, r_member_id = 2, r_response = ''declined'',
           r_rsvp_at = ''2025-05-11T10:00:00'', r_notes = ''ill''\<rparr> \<and>
   filter (\<lambda>x. r_event_id x = 2 \<and> r_member_id x = 2)
     (rsvps (snd (rsvp 2 ''b@x.com'' ''declined'' ''ill'' ''2025-05-11T10:00:00''
          (snd (rsvp 2 ''b@x.com'' ''attending'' [] ''2025-05-10T10:00:00'' db_busy))))) =
     [\<lparr>r_id = 6, r_event_id = 2, r_member_id = 2, r_response = ''declined'',
       r_rsvp_at = ''2025-05-11T10:00:00'', r_notes = ''ill''\<rparr>] \<and>
   reachable db_busy \<and>
   length (filter (\<lambda>x. r_event_id x = 1 \<and> r_member_id x = 1) (rsvps db_busy)) = 1"
  using rsvp_twice_one_row [of "''b@x.com''" db_busy 2 "''declined''" "''ill''"
      "''2025-05-11T10:00:00''" "''attending''" "[]" "''2025-05-10T10:00:00''" 1 1]
    reachable_db_busy
  by (simp add: db_busy_eq rsvp_def find_member_id_def next_rowid_def fits_int64_def Let_def)

text \<open>
  The claim C1 as it stands fails for an event id that does not fit: with the event id
  \<open>2^63\<close> and the email of the member of \<open>db_one_member\<close>, both calls raise the
  OverflowError and the RSVP table stays empty.
\<close>

theorem rsvp_twice_overflow_counterexample:
  "map m_email (members db_one_member) = [''a@x.com''] \<and>
   fst (rsvp 9223372036854775808 ''a@x.com'' ''maybe'' [] ''2025-05-11T10:00:00''
          (snd (rsvp 9223372036854775808 ''a@x.com'' ''attending'' [] ''2025-05-10T10:00:00''
                  db_one_member))) =
     Inl (OverflowError ''Python int too large to convert to SQLite INTEGER'') \<and>
   rsvps (snd (rsvp 9223372036854775808 ''a@x.com'' ''maybe'' [] ''2025-05-11T10:00:00''
          (snd (rsvp 9223372036854775808 ''a@x.com'' ''attending'' [] ''2025-05-10T10:00:00''
                  db_one_member)))) = []"
  by (simp add: db_one_member_eq rsvp_def find_member_id_def fits_int64_def int_too_large_def)

text \<open>
  C2. If no member row has the email M, \<open>rsvp\<close> raises the ValueError whose message
  quotes M, and the state (so the RSVP table) is as before.
\<close>

theorem rsvp_unknown_member:
  "M \<notin> m_email ` set (members s) \<Longrightarrow>
   rsvp E M r n t s =
     (Inl (ValueError (''Member '' @ [CHR 0x27] @ M @ [CHR 0x27] @ '' not found'')), s) \<and>
   rsvps (snd (rsvp E M r n t s)) = rsvps s"
  by (simp add: rsvp_fail find_member_id_None)

theorem rsvp_unknown_member_witness:
  "''z@x.com'' \<notin> m_email ` set (members db_busy) \<and>
   rsvp 1 ''z@x.com'' ''attending'' [] ''2025-05-10T10:00:00'' db_busy =
     (Inl (ValueError ''Member 'z@x.com' not found''), db_busy) \<and>
   rsvps (snd (rsvp 1 ''z@x.com'' ''attending'' [] ''2025-05-10T10:00:00'' db_busy)) = rsvps db_busy"
  using rsvp_unknown_member [of "''z@x.com''" db_busy 1 "''attending''" "[]" "''2025-05-10T10:00:00''"]
  by (simp add: db_busy_eq)

text \<open>
  C3. If a member m with the email E is in the table, \<open>add_member\<close> with E raises the
  IntegrityError of the UNIQUE constraint and leaves the state as it was: m is still a row
  of the table, the lookup by E still succeeds, and \<open>list_members\<close> and \<open>export_data\<close>
  return what they returned before.
\<close>

theorem add_member_duplicate_email:
  assumes "m \<in> set (members s)" and "m_email m = E"
  shows "add_member name E role now s =
           (Inl (IntegrityError ''UNIQUE constraint failed: members.email''), s) \<and>
         m \<in> set (members (snd (add_member name E role now s))) \<and>
         find_member_id E (snd (add_member name E role now s)) = find_member_id E s \<and>
         find_member_id E s \<noteq> None \<and>
         list_members (snd (add_member name E role now s)) = list_members s \<and>
         export_data t (snd (add_member name E role now s)) = export_data t s"
proof -
  from assms have "E \<in> m_email ` set (members s)" by auto
  then have "add_member name E role now s =
           (Inl (IntegrityError ''UNIQUE constraint failed: members.email''), s)"
    and "find_member_id E s \<noteq> None"
    by (simp_all add: add_member_fail find_member_id_None)
  with assms(1) show ?thesis by simp
qed

theorem add_member_duplicate_email_witness:
  "\<lparr>m_id = 1, m_name = ''A'', m_email = ''a@x.com'', m_role = ''member'',
     m_joined_at = ''2025-05-01T10:00:00'', m_active = 1\<rparr> \<in> set (members db_scenario) \<and>
   add_member ''Impostor'' ''a@x.com'' ''admin'' ''2025-05-10T10:00:00'' db_scenario =
     (Inl (IntegrityError ''UNIQUE constraint failed: members.email''), db_scenario) \<and>
   list_members (snd (add_member ''Impostor'' ''a@x.com'' ''admin'' ''2025-05-10T10:00:00'' db_scenario)) =
     [\<lparr>m_id = 1, m_name = ''A'', m_email = ''a@x.com'', m_role = ''member'',
       m_joined_at = ''2025-05-01T10:00:00'', m_active = 1\<rparr>]"
  using add_member_duplicate_email [of "\<lparr>m_id = 1, m_name = ''A'', m_email = ''a@x.com'',
      m_role = ''member'', m_joined_at = ''2025-05-01T10:00:00'', m_active = 1\<rparr>" db_scenario
      "''a@x.com''" "''Impostor''" "''admin''" "''2025-05-10T10:00:00''" "[]"]
  by (simp add: db_scenario_eq list_members_def)

text \<open>
  C4. \<open>status\<close> reports the number of member rows with \<open>active = 1\<close>, the number of event
  rows whatever their status, and the number of RSVP rows whose response is the string
  \<open>attending\<close>; the rows with any other response make up the rest of the RSVP table.
  (The dictionary also carries \<open>db_path\<close>.)
\<close>

theorem status_counts:
  assumes "count_list (map m_active (members s)) 1 = N"
    and "length (events s) = M"
    and "count_list (map r_response (rsvps s)) ''attending'' = K"
  shows "status s = \<lparr>active_members = int N, total_events = int M, confirmed_rsvps = int K,
                      status_db_path = db_path s\<rparr> \<and>
         K + length (filter (\<lambda>r. r_response r \<noteq> ''attending'') (rsvps s)) = length (rsvps s)"
proof -
  have c: "\<And>f xs v. count_list (map f xs) v = length (filter (\<lambda>x. f x = v) xs)"
  proof -
    fix f :: "'a \<Rightarrow> 'b" and xs v
    show "count_list (map f xs) v = length (filter (\<lambda>x. f x = v) xs)"
      by (induction xs) auto
  qed
  have "K + length (filter (\<lambda>r. r_response r \<noteq> ''attending'') (rsvps s)) = length (rsvps s)"
    using sum_length_filter_compl[of "\<lambda>r. r_response r = ''attending''" "rsvps s"] assms(3)
    by (simp add: c)
  then show ?thesis using assms by (simp add: status_def c)
qed

theorem status_counts_witness:
  "count_list (map m_active (members db_busy)) 1 = 3 \<and>
   length (events db_busy) = 2 \<and>
   count_list (map r_response (rsvps db_busy)) ''attending'' = 1 \<and>
   status db_busy = \<lparr>active_members = 3, total_events = 2, confirmed_rsvps = 1,
                      status_db_path = ''organizer.db''\<rparr>"
  using status_counts [of db_busy 3 2 1]
  by (simp add: db_busy_eq)

text \<open>
  C5, as amended. \<open>list_events\<close> returns its rows in ascending lexicographic order of
  \<open>event_date\<close>. Without a filter the rows are all the events; with a non-empty filter string
  they are exactly the events whose status is that string; the empty string as filter is
  treated as no filter.
\<close>

theorem list_events_sorted_filtered:
  "sorted (map e_event_date (list_events f s)) \<and>
   mset (list_events None s) = mset (events s) \<and>
   (st \<noteq> [] \<longrightarrow>
      mset (list_events (Some st) s) = mset (filter (\<lambda>e. e_status e = st) (events s))) \<and>
   list_events (Some []) s = list_events None s"
  by (simp add: list_events_def split: option.splits)

theorem list_events_sorted_filtered_witness:
  "''upcoming'' \<noteq> [] \<and>
   map e_event_date (list_events None db_busy) = [''2025-03-15'', ''2025-06-01''] \<and>
   map e_title (list_events (Some ''upcoming'') db_busy) = [''Kickoff'', ''Meetup''] \<and>
   mset (list_events (Some ''upcoming'') db_busy) = mset (events db_busy) \<and>
   list_events (Some ''cancelled'') db_busy = []"
  using list_events_sorted_filtered [of "Some ''upcoming''" db_busy "''upcoming''"]
  by (simp add: db_busy_eq list_events_def)

text \<open>
  The claim C5 as it stands fails for the empty filter string: the call returns the event
  of \<open>db_meetup\<close>, whose status is \<open>upcoming\<close>.
\<close>

theorem list_events_empty_filter_counterexample:
  "map e_status (list_events (Some []) db_meetup) = [''upcoming''] \<and>
   list_events (Some []) db_meetup = events db_meetup"
  by (simp add: db_meetup_eq list_events_def)

text \<open>
  C6, as amended. In a reachable state, for an event id that fits the store's signed 64-bit
  INTEGER, \<open>event_attendees\<close> returns one entry for every RSVP row of the event, whatever
  its response: the entries are the rows in ascending order of \<open>rsvp_at\<close>, each with the
  row's response and timestamp and with the name and email of the member whose id the row
  holds. For an event id outside that range it raises the OverflowError.
\<close>

theorem event_attendees_all_rows:
  "(reachable s \<and> fits_int64 E \<longrightarrow>
      (\<exists>as. event_attendees E s = Inr as \<and>
         list_all2
           (\<lambda>a r. a_response a = r_response r \<and> a_rsvp_at a = r_rsvp_at r \<and>
                  (\<exists>m \<in> set (members s). m_id m = r_member_id r \<and>
                      a_name a = m_name m \<and> a_email a = m_email m))
           as (sort_key r_rsvp_at (filter (\<lambda>r. r_event_id r = E) (rsvps s))) \<and>
         sorted (map a_rsvp_at as) \<and>
         length as = length (filter (\<lambda>r. r_event_id r = E) (rsvps s)))) \<and>
   (\<not> fits_int64 E \<longrightarrow> event_attendees E s = Inl int_too_large)"
proof (intro conjI impI)
  assume "\<not> fits_int64 E"
  then show "event_attendees E s = Inl int_too_large" by (simp add: event_attendees_def)
next
  assume a: "reachable s \<and> fits_int64 E"
  let ?rs = "filter (\<lambda>r. r_event_id r = E) (rsvps s)"
  let ?row = "\<lambda>r m. \<lparr>a_name = m_name m, a_email = m_email m,
                       a_response = r_response r, a_rsvp_at = r_rsvp_at r\<rparr>"
  let ?ms = "\<lambda>r. filter (\<lambda>m. m_id m = r_member_id r) (members s)"
  let ?h = "\<lambda>r. ?row r (hd (?ms r))"
  let ?as = "map ?h (sort_key r_rsvp_at ?rs)"
  from a have c: "consistent s" by (simp add: reachable_consistent)
  then have d: "distinct (map m_id (members s))"
    and ref: "\<And>r. r \<in> set (rsvps s) \<Longrightarrow> r_member_id r \<in> m_id ` set (members s)"
    by (auto simp: consistent_def list_all_iff)
  have one: "\<exists>m \<in> set (members s). m_id m = r_member_id r \<and> ?ms r = [m]"
    if "r \<in> set ?rs" for r
  proof -
    from that have "r_member_id r \<in> m_id ` set (members s)" using ref by simp
    with d show ?thesis by (rule filter_unique_key)
  qed
  have "concat (map (\<lambda>r. map (?row r) (?ms r)) ?rs) = map ?h ?rs"
  proof (rule concat_map_single)
    fix r assume "r \<in> set ?rs"
    from one[OF this] obtain m where "?ms r = [m]" by blast
    then show "map (?row r) (?ms r) = [?h r]" by simp
  qed
  with a have "event_attendees E s = Inr (sort_key a_rsvp_at (map ?h ?rs))"
    by (simp add: event_attendees_def)
  also have "sort_key a_rsvp_at (map ?h ?rs) = map ?h (sort_key (\<lambda>r. a_rsvp_at (?h r)) ?rs)"
    by (rule sort_key_map)
  also have "(\<lambda>r. a_rsvp_at (?h r)) = r_rsvp_at" by (rule ext) simp
  finally have eq: "event_attendees E s = Inr ?as" .
  have rel: "list_all2
           (\<lambda>a r. a_response a = r_response r \<and> a_rsvp_at a = r_rsvp_at r \<and>
                  (\<exists>m \<in> set (members s). m_id m = r_member_id r \<and>
                      a_name a = m_name m \<and> a_email a = m_email m))
           ?as (sort_key r_rsvp_at ?rs)"
    unfolding list_all2_map1
  proof (rule list_all2_same[THEN iffD2], rule ballI)
    fix r assume "r \<in> set (sort_key r_rsvp_at ?rs)"
    then have "r \<in> set ?rs" by simp
    from one[OF this] obtain m where
      "m \<in> set (members s)" "m_id m = r_member_id r" "?ms r = [m]" by blast
    then show "a_response (?h r) = r_response r \<and> a_rsvp_at (?h r) = r_rsvp_at r \<and>
                  (\<exists>m \<in> set (members s). m_id m = r_member_id r \<and>
                      a_name (?h r) = m_name m \<and> a_email (?h r) = m_email m)"
      by auto
  qed
  have "map a_rsvp_at ?as = map r_rsvp_at (sort_key r_rsvp_at ?rs)" by simp
  then have srt: "sorted (map a_rsvp_at ?as)" by (simp only: sorted_sort_key)
  have len: "length ?as = length ?rs" by simp
  show "\<exists>as. event_attendees E s = Inr as \<and>
         list_all2
           (\<lambda>a r. a_response a = r_response r \<and> a_rsvp_at a = r_rsvp_at r \<and>
                  (\<exists>m \<in> set (members s). m_id m = r_member_id r \<and>
                      a_name a = m_name m \<and> a_email a = m_email m))
           as (sort_key r_rsvp_at ?rs) \<and>
         sorted (map a_rsvp_at as) \<and> length as = length ?rs"
    using eq rel srt len by blast
qed

theorem event_attendees_all_rows_witness:
  "reachable db_busy \<and> fits_int64 1 \<and>
   event_attendees 1 db_busy =
     Inr [\<lparr>a_name = ''B'', a_email = ''b@x.com'', a_response = ''maybe'',
           a_rsvp_at = ''2025-05-07T10:00:00''\<rparr>,
          \<lparr>a_name = ''C'', a_email = ''c@x.com'', a_response = ''declined'',
           a_rsvp_at = ''2025-05-08T10:00:00''\<rparr>,
          \<lparr>a_name = ''A'', a_email = ''a@x.com'', a_response = ''attending'',
           a_rsvp_at = ''2025-05-09T10:00:00''\<rparr>] \<and>
   length (filter (\<lambda>r. r_event_id r = 1) (rsvps db_busy)) = 3"
  using event_attendees_all_rows [of db_busy 1] reachable_db_busy
  by (simp add: db_busy_eq event_attendees_def fits_int64_def)

text \<open>
  The claim C6 as it stands fails for an event id that does not fit: for the event id
  \<open>2^63\<close> the call returns no list, it raises the OverflowError.
\<close>

theorem event_attendees_overflow_counterexample:
  "event_attendees 9223372036854775808 db_busy =
     Inl (OverflowError ''Python int too large to convert to SQLite INTEGER'')"
  by (simp add: event_attendees_def fits_int64_def int_too_large_def)

text \<open>
  C7, as amended. If \<open>capacity\<close> fits the store's signed 64-bit INTEGER, \<open>create_event\<close>
  does not raise: it returns the event and appends it to the events table. If
  \<open>organizer_email\<close> is a non-empty string that is the email of a member, the event's
  \<open>organizer_id\<close> is the id of a member with that email (of the member with that email,
  since emails are unique). If \<open>organizer_email\<close> is omitted, is the empty string, or is
  the email of no member, \<open>organizer_id\<close> is None. For a capacity outside that range
  \<open>create_event\<close> raises the OverflowError and leaves the state as it was.
\<close>

theorem create_event_organizer:
  "(fits_int64 capacity \<longrightarrow>
     (\<exists>ev. create_event title event_date location description capacity organizer_email now s =
          (Inr ev, s\<lparr>events := events s @ [ev], events_seq := e_id ev\<rparr>) \<and>
     (organizer_email = Some e \<and> e \<noteq> [] \<and> e \<in> m_email ` set (members s) \<longrightarrow>
        (\<exists>m \<in> set (members s). m_email m = e \<and> e_organizer_id ev = Some (m_id m))) \<and>
     (organizer_email = Some e \<and> e \<noteq> [] \<and> distinct (map m_email (members s)) \<and>
      m \<in> set (members s) \<and> m_email m = e \<longrightarrow> e_organizer_id ev = Some (m_id m)) \<and>
     (organizer_email = None \<or> organizer_email = Some [] \<or>
      (organizer_email = Some e \<and> e \<notin> m_email ` set (members s)) \<longrightarrow>
        e_organizer_id ev = None))) \<and>
   (\<not> fits_int64 capacity \<longrightarrow>
      create_event title event_date location description capacity organizer_email now s =
        (Inl int_too_large, s))"
proof (intro conjI impI)
  assume "\<not> fits_int64 capacity"
  then show "create_event title event_date location description capacity organizer_email now s =
        (Inl int_too_large, s)"
    by (simp add: create_event_def Let_def)
next
  assume fits: "fits_int64 capacity"
  let ?oid = "case organizer_email of None \<Rightarrow> None
              | Some e \<Rightarrow> if e = [] then None else find_member_id e s"
  let ?ev = "\<lparr>e_id = next_rowid (events_seq s) (map e_id (events s)), e_title = title,
              e_description = description, e_location = location, e_event_date = event_date,
              e_capacity = capacity, e_organizer_id = ?oid, e_created_at = now,
              e_status = ''upcoming''\<rparr>"
  have run: "create_event title event_date location description capacity organizer_email now s =
          (Inr ?ev, s\<lparr>events := events s @ [?ev], events_seq := e_id ?ev\<rparr>)"
    using fits by (simp add: create_event_def Let_def)
  have a: "\<exists>m \<in> set (members s). m_email m = e \<and> ?oid = Some (m_id m)"
    if "organizer_email = Some e" "e \<noteq> []" "e \<in> m_email ` set (members s)"
  proof -
    from that(3) have "find_member_id e s \<noteq> None" by (simp add: find_member_id_None)
    then obtain i where i: "find_member_id e s = Some i" by blast
    from find_member_id_Some[OF i] i that(1,2) show ?thesis by auto
  qed
  have b: "?oid = Some (m_id m)"
    if "organizer_email = Some e" "e \<noteq> []" "distinct (map m_email (members s))"
       "m \<in> set (members s)" "m_email m = e"
    using find_member_id_unique[OF that(3,4)] that(1,2,5) by simp
  have c: "?oid = None"
    if "organizer_email = None \<or> organizer_email = Some [] \<or>
      (organizer_email = Some e \<and> e \<notin> m_email ` set (members s))"
    using that find_member_id_None[of e s] by (auto split: option.splits)
  show "\<exists>ev. create_event title event_date location description capacity organizer_email now s =
          (Inr ev, s\<lparr>events := events s @ [ev], events_seq := e_id ev\<rparr>) \<and>
     (organizer_email = Some e \<and> e \<noteq> [] \<and> e \<in> m_email ` set (members s) \<longrightarrow>
        (\<exists>m \<in> set (members s). m_email m = e \<and> e_organizer_id ev = Some (m_id m))) \<and>
     (organizer_email = Some e \<and> e \<noteq> [] \<and> distinct (map m_email (members s)) \<and>
      m \<in> set (members s) \<and> m_email m = e \<longrightarrow> e_organizer_id ev = Some (m_id m)) \<and>
     (organizer_email = None \<or> organizer_email = Some [] \<or>
      (organizer_email = Some e \<and> e \<notin> m_email ` set (members s)) \<longrightarrow>
        e_organizer_id ev = None)"
    apply (rule exI[of _ ?ev])
    apply (intro conjI impI)
    subgoal by (rule run)
    subgoal using a by simp
    subgoal using b by simp
    subgoal using c by simp
    done
qed

theorem create_event_organizer_witness:
  "fits_int64 30 \<and> ''b@x.com'' \<noteq> [] \<and> ''b@x.com'' \<in> m_email ` set (members db_busy) \<and>
   distinct (map m_email (members db_busy)) \<and>
   fst (create_event ''Picnic'' ''2025-07-01'' ''Park'' [] 30 (Some ''b@x.com'')
          ''2025-05-10T10:00:00'' db_busy) =
     Inr \<lparr>e_id = 3, e_title = ''Picnic'', e_description = [], e_location = ''Park'',
           e_event_date = ''2025-07-01'', e_capacity = 30, e_organizer_id = Some 2,
           e_created_at = ''2025-05-10T10:00:00'', e_status = ''upcoming''\<rparr> \<and>
   e_organizer_id (last (events (snd (create_event ''Picnic'' ''2025-07-01'' ''Park'' [] 30
          (Some ''z@x.com'') ''2025-05-10T10:00:00'' db_busy)))) = None"
  using create_event_organizer [where title = "''Picnic''" and event_date = "''2025-07-01''"
      and location = "''Park''" and description = "[]" and capacity = 30
      and organizer_email = "Some ''b@x.com''" and now = "''2025-05-10T10:00:00''"
      and s = db_busy and e = "''b@x.com''"
      and m = "\<lparr>m_id = 2, m_name = ''B'', m_email = ''b@x.com'', m_role = ''admin'',
        m_joined_at = ''2025-05-04T10:00:00'', m_active = 1\<rparr>"]
  by (simp add: db_busy_eq create_event_def find_member_id_def next_rowid_def fits_int64_def Let_def)

text \<open>
  The claim C7 as it stands fails for the empty email: \<open>db_empty_email\<close> has a member
  (id 1) whose email is the empty string, and an event created with that string as
  \<open>organizer_email\<close> gets no organizer. It also fails for a capacity that does not fit:
  with the capacity \<open>2^63\<close> and no organizer the call raises the OverflowError and stores
  no event.
\<close>

theorem create_event_organizer_counterexample:
  "map m_email (members db_empty_email) = [[]] \<and>
   map m_id (members db_empty_email) = [1] \<and>
   fst (create_event ''Meetup'' ''2025-06-01'' ''TBD'' [] 50 (Some [])
          ''2025-05-02T10:00:00'' db_empty_email) =
     Inr \<lparr>e_id = 1, e_title = ''Meetup'', e_description = [], e_location = ''TBD'',
           e_event_date = ''2025-06-01'', e_capacity = 50, e_organizer_id = None,
           e_created_at = ''2025-05-02T10:00:00'', e_status = ''upcoming''\<rparr> \<and>
   create_event ''Meetup'' ''2025-06-01'' ''TBD'' [] 9223372036854775808 None
     ''2025-05-02T10:00:00'' db_empty_email =
     (Inl (OverflowError ''Python int too large to convert to SQLite INTEGER''), db_empty_email)"
  by (simp add: db_empty_email_eq create_event_def next_rowid_def fits_int64_def
      int_too_large_def Let_def)

text \<open>
  C8. \<open>export_data\<close> returns a dictionary with exactly the keys \<open>members\<close>, \<open>events\<close>,
  \<open>rsvps\<close> and \<open>exported_at\<close>. The first three hold, row by row and in table order, the
  dictionary of every row of the table (no row is left out, whatever its \<open>active\<close> flag or
  response), with one key per field of the dataclass, named as the field, from which the
  row can be read back; \<open>exported_at\<close> holds the clock reading as a string.
\<close>

theorem export_data_contents:
  "dict_keys (export_data now s) = [''members'', ''events'', ''rsvps'', ''exported_at''] \<and>
   dict_get (export_data now s) ''members'' = Some (PList (map asdict_member (members s))) \<and>
   dict_get (export_data now s) ''events'' = Some (PList (map asdict_event (events s))) \<and>
   dict_get (export_data now s) ''rsvps'' = Some (PList (map asdict_rsvp (rsvps s))) \<and>
   dict_get (export_data now s) ''exported_at'' = Some (PStr now) \<and>
   dict_keys (asdict_member m) =
     [''id'', ''name'', ''email'', ''role'', ''joined_at'', ''active''] \<and>
   dict_keys (asdict_event e) =
     [''id'', ''title'', ''description'', ''location'', ''event_date'', ''capacity'',
      ''organizer_id'', ''created_at'', ''status''] \<and>
   dict_keys (asdict_rsvp r) =
     [''id'', ''event_id'', ''member_id'', ''response'', ''rsvp_at'', ''notes''] \<and>
   inj asdict_member \<and> inj asdict_event \<and> inj asdict_rsvp"
proof -
  have "inj asdict_member" "inj asdict_event" "inj asdict_rsvp"
    by (auto intro!: injI dest: asdict_member_inj asdict_event_inj asdict_rsvp_inj)
  then show ?thesis
    by (simp add: export_data_def asdict_member_def asdict_event_def asdict_rsvp_def)
qed

theorem export_data_contents_witness:
  "export_data ''2025-05-10T10:00:00''
     (db_scenario\<lparr>members := [\<lparr>m_id = 1, m_name = ''A'', m_email = ''a@x.com'',
        m_role = ''member'', m_joined_at = ''2025-05-01T10:00:00'', m_active = 0\<rparr>]\<rparr>) =
   PDict
    [(''members'',
      PList [PDict [(''id'', PInt 1), (''name'', PStr ''A''), (''email'', PStr ''a@x.com''),
                    (''role'', PStr ''member''), (''joined_at'', PStr ''2025-05-01T10:00:00''),
                    (''active'', PInt 0)]]),
     (''events'',
      PList [PDict [(''id'', PInt 1), (''title'', PStr ''Meetup''), (''description'', PStr []),
                    (''location'', PStr ''TBD''), (''event_date'', PStr ''2025-06-01''),
                    (''capacity'', PInt 50), (''organizer_id'', PInt 1),
                    (''created_at'', PStr ''2025-05-02T10:00:00''),
                    (''status'', PStr ''upcoming'')]]),
     (''rsvps'',
      PList [PDict [(''id'', PInt 1), (''event_id'', PInt 1), (''member_id'', PInt 1),
                    (''response'', PStr ''attending''),
                    (''rsvp_at'', PStr ''2025-05-03T10:00:00''), (''notes'', PStr [])]]),
     (''exported_at'', PStr ''2025-05-10T10:00:00'')] \<and>
   dict_keys (export_data ''2025-05-10T10:00:00''
     (db_scenario\<lparr>members := [\<lparr>m_id = 1, m_name = ''A'', m_email = ''a@x.com'',
        m_role = ''member'', m_joined_at = ''2025-05-01T10:00:00'', m_active = 0\<rparr>]\<rparr>)) =
     [''members'', ''events'', ''rsvps'', ''exported_at'']"
  using export_data_contents [of "''2025-05-10T10:00:00''"
      "db_scenario\<lparr>members := [\<lparr>m_id = 1, m_name = ''A'', m_email = ''a@x.com'',
        m_role = ''member'', m_joined_at = ''2025-05-01T10:00:00'', m_active = 0\<rparr>]\<rparr>"]
  by (simp add: db_scenario_eq export_data_def asdict_member_def asdict_event_def asdict_rsvp_def)

text \<open>
  C9. \<open>add_member\<close> stores its row with \<open>active = 1\<close> at the end of the members table, and
  no method changes or removes a row that is in the table. So in every reachable state every
  member row has \<open>active = 1\<close>, \<open>list_members\<close> returns the whole table, and the
  \<open>active_members\<close> count of \<open>status\<close> is the number of member rows.
\<close>

theorem members_always_active:
  "(reachable s \<longrightarrow>
      (\<forall>m \<in> set (members s). m_active m = 1) \<and>
      list_members s = members s \<and>
      active_members (status s) = int (length (members s))) \<and>
   (fst (add_member name email role now s) = Inr m \<longrightarrow>
      m_active m = 1 \<and> members (snd (add_member name email role now s)) = members s @ [m]) \<and>
   take (length (members s)) (members (snd (add_member name email role now s))) = members s \<and>
   members (snd (create_event title event_date location description capacity organizer_email now s))
     = members s \<and>
   members (snd (rsvp event_id member_email response notes now s)) = members s"
proof -
  have "(\<forall>m \<in> set (members s). m_active m = 1) \<and> list_members s = members s \<and>
        active_members (status s) = int (length (members s))" if "reachable s"
  proof -
    from that have "consistent s" by (rule reachable_consistent)
    then have all: "\<forall>m \<in> set (members s). m_active m = 1"
      by (simp add: consistent_def list_all_iff)
    then have "filter (\<lambda>m. m_active m = 1) (members s) = members s" by simp
    with all show ?thesis by (simp add: list_members_def status_def)
  qed
  moreover have "m_active m = 1 \<and> members (snd (add_member name email role now s)) = members s @ [m]"
    if "fst (add_member name email role now s) = Inr m"
    using that by (auto simp: add_member_def Let_def split: if_splits)
  moreover have "take (length (members s)) (members (snd (add_member name email role now s))) = members s"
    by (simp add: add_member_def Let_def)
  ultimately show ?thesis by simp
qed

theorem members_always_active_witness:
  "reachable db_busy \<and>
   list_members db_busy = members db_busy \<and>
   active_members (status db_busy) = 3 \<and>
   fst (add_member ''D'' ''d@x.com'' ''guest'' ''2025-05-10T10:00:00'' db_busy) =
     Inr \<lparr>m_id = 4, m_name = ''D'', m_email = ''d@x.com'', m_role = ''guest'',
           m_joined_at = ''2025-05-10T10:00:00'', m_active = 1\<rparr> \<and>
   members (snd (add_member ''D'' ''d@x.com'' ''guest'' ''2025-05-10T10:00:00'' db_busy)) =
     members db_busy @
       [\<lparr>m_id = 4, m_name = ''D'', m_email = ''d@x.com'', m_role = ''guest'',
         m_joined_at = ''2025-05-10T10:00:00'', m_active = 1\<rparr>]"
  using members_always_active [of db_busy "''D''" "''d@x.com''" "''guest''"
      "''2025-05-10T10:00:00''"
      "\<lparr>m_id = 4, m_name = ''D'', m_email = ''d@x.com'', m_role = ''guest'',
        m_joined_at = ''2025-05-10T10:00:00'', m_active = 1\<rparr>"]
    reachable_db_busy
  by (simp add: db_busy_eq add_member_def next_rowid_def Let_def list_members_def status_def)

text \<open>
  C10. \<open>add_member\<close> leaves the events and RSVP tables as they were, \<open>create_event\<close> the
  members and RSVP tables, and \<open>rsvp\<close> the members and events tables, whether the call
  succeeds or raises.
\<close>

theorem writes_own_table_only:
  "events (snd (add_member name email role now s)) = events s \<and>
   rsvps (snd (add_member name email role now s)) = rsvps s \<and>
   members (snd (create_event title event_date location description capacity organizer_email now s))
     = members s \<and>
   rsvps (snd (create_event title event_date location description capacity organizer_email now s))
     = rsvps s \<and>
   members (snd (rsvp event_id member_email response notes now s)) = members s \<and>
   events (snd (rsvp event_id member_email response notes now s)) = events s"
  by simp

theorem writes_own_table_only_witness:
  "events (snd (add_member ''D'' ''d@x.com'' ''member'' ''2025-05-10T10:00:00'' db_busy))
     = events db_busy \<and>
   rsvps (snd (add_member ''D'' ''d@x.com'' ''member'' ''2025-05-10T10:00:00'' db_busy))
     = rsvps db_busy \<and>
   members (snd (add_member ''D'' ''d@x.com'' ''member'' ''2025-05-10T10:00:00'' db_busy))
     \<noteq> members db_busy \<and>
   members (snd (create_event ''Picnic'' ''2025-07-01'' ''Park'' [] 30 (Some ''b@x.com'')
              ''2025-05-10T10:00:00'' db_busy)) = members db_busy \<and>
   rsvps (snd (create_event ''Picnic'' ''2025-07-01'' ''Park'' [] 30 (Some ''b@x.com'')
              ''2025-05-10T10:00:00'' db_busy)) = rsvps db_busy \<and>
   members (snd (rsvp 2 ''c@x.com'' ''maybe'' [] ''2025-05-10T10:00:00'' db_busy))
     = members db_busy \<and>
   events (snd (rsvp 2 ''c@x.com'' ''maybe'' [] ''2025-05-10T10:00:00'' db_busy))
     = events db_busy \<and>
   rsvps (snd (rsvp 2 ''c@x.com'' ''maybe'' [] ''2025-05-10T10:00:00'' db_busy))
     \<noteq> rsvps db_busy"
  using writes_own_table_only [of "''D''" "''d@x.com''" "''member''" "''2025-05-10T10:00:00''"
      db_busy "''Picnic''" "''2025-07-01''" "''Park''" "[]" 30 "Some ''b@x.com''" 2 "''c@x.com''"
      "''maybe''" "[]"]
  by (simp add: db_busy_eq add_member_def rsvp_def find_member_id_def next_rowid_def fits_int64_def Let_def)

end
